theory Spec2Isabelle
  imports Main "HOL-Library.Word"
begin

section \<open>The tidb-server entry point (tidb-server/main.go)\<close>

text \<open>
  The program is one sequential \<open>main\<close> that calls into external packages, starts three
  goroutines and blocks in \<open>svr.Run()\<close>. The embedding makes every effect of \<open>main\<close> an
  \<open>event\<close>: a run of the program is the list of events of its main thread, and each
  goroutine it starts has an event list of its own. The results of the external calls
  (the Go standard library, the logging package, the storage registry, the server
  package) are fields of a record \<open>env\<close>: the code is verified for every such record.
\<close>

subsection \<open>Data\<close>

text \<open>\<open>time.Duration\<close> is an \<open>int64\<close> count of nanoseconds; \<open>dur < 0\<close> reads it signed.\<close>

type_synonym Duration = "64 word"

definition Second :: Duration where
  "Second = 1000000000"

definition zeroDuration :: Duration where
  "zeroDuration = 0"

text \<open>
  A non-nil Go \<open>error\<close>: the text of \<open>err.Error()\<close> and the text that
  \<open>errors.ErrorStack(err)\<close> renders. A possibly nil \<open>error\<close> is an \<open>error option\<close>.
\<close>

datatype error = GoError (ErrorText: string) (ErrorStack: string)

text \<open>The package-level flag variables, after \<open>flag.Parse()\<close>.\<close>

record flags =
  version :: bool
  store :: string
  storePath :: string
  logLevel :: string
  host :: string
  port :: string
  sslEnabled :: bool
  sslCAPath :: string
  sslCertPath :: string
  sslKeyPath :: string
  statusPort :: string
  ddlLease :: string
  statsLease :: string
  socket :: string
  enablePS :: bool
  enablePrivilege :: bool
  reportStatus :: bool
  logFile :: string
  joinCon :: int
  crossJoin :: bool
  metricsAddr :: string
  metricsInterval :: int
  binlogSocket :: string
  runDDL :: bool
  retryLimit :: int
  skipGrantTable :: bool

text \<open>The fields of \<open>server.Config\<close> that \<open>main\<close> assigns.\<close>

record Config =
  Addr :: string
  LogLevel :: string
  StatusAddr :: string
  Socket :: string
  ReportStatus :: bool
  Store :: string
  StorePath :: string
  SSLEnabled :: bool
  SSLCAPath :: string
  SSLCertPath :: string
  SSLKeyPath :: string

text \<open>
  \<open>crypto/tls\<close>: a loaded key pair is opaque, a certificate pool is the list of the
  certificates added to it, and a \<open>*x509.CertPool\<close> that may be nil is an option.
\<close>

datatype Certificate = X509KeyPair string

datatype x509_Certificate = PEMCertificate string

type_synonym CertPool = "x509_Certificate list"

datatype ClientAuthType =
    NoClientCert
  | RequestClientCert
  | RequireAnyClientCert
  | VerifyClientCertIfGiven
  | RequireAndVerifyClientCert

record tls_Config =
  Certificates :: "Certificate list"
  ClientCAs :: "CertPool option"
  ClientAuth :: ClientAuthType
  MinVersion :: nat

text \<open>Opaque handles of the collaborating packages.\<close>

datatype Storage = StorageHandle string
datatype Domain = DomainHandle Storage
datatype IDriver = TiDBDriver Storage
datatype Server = ServerHandle nat
datatype ClientConn = GrpcConn string

datatype Signal = SIGHUP | SIGINT | SIGQUIT | SIGTERM | SIGUSR1 | SIGUSR2 | SIGPIPE

text \<open>What \<open>svr.Run()\<close> does: it blocks for ever, or it returns a possibly nil error.\<close>

datatype run_outcome = Blocks | Returns "error option"

subsection \<open>Events\<close>

datatype level = LInfo | LWarn | LError | LFatal

datatype arg = AStr string | ADur Duration | ASig Signal | AErr "error option"

datatype goroutine =
    SignalHandler Server
  | StartMonitor
  | PrometheusPushClient string Duration

text \<open>
  \<open>Log l args\<close> is a call of \<open>log.Info\<close>, \<open>log.Warn\<close>, \<open>log.Error\<close> or \<open>log.Fatal\<close>;
  \<open>Logf l fmt args\<close> is a call of the formatting variant. A call at level \<open>LFatal\<close>
  ends the process inside the logging package, \<open>Exit c\<close> is \<open>os.Exit(c)\<close>.
\<close>

datatype event =
    RegisterLocalStore string
  | RegisterStore string
  | GOMAXPROCS
  | FlagParse
  | PrintRawTiDBInfo
  | PrintTiDBInfo
  | Log level "arg list"
  | Logf level string "arg list"
  | Exit int
  | SetSchemaLease Duration
  | SetStatsLease Duration
  | SetRunWorker bool
  | SetCommitRetryLimit int
  | SetOutputByNameCall string
  | SetRotateByDay
  | SetHighlighting bool
  | SetJoinConcurrency int
  | SetAllowCartesianProduct bool
  | SetLevelByString string
  | LoadX509KeyPairCall string string
  | ReadFileCall string
  | NewStoreCall string
  | EnablePerfSchema
  | SetPrivilegesEnable bool
  | SetSkipWithGrant bool
  | DialCall string
  | SetPumpClient ClientConn
  | BootstrapSessionCall Storage
  | NewServerCall Config "tls_Config option" IDriver
  | SignalNotify "Signal list"
  | Go goroutine
  | MustRegister string
  | RunCall Server
  | CloseCall Server
  | DomainClose Domain
  | AddFromGathererCall string string string
  | Sleep Duration

subsection \<open>The environment\<close>

record env =
  Geteuid :: int
  ParseDuration :: "string \<Rightarrow> error + Duration"
  SetOutputByName :: "string \<Rightarrow> error option"
  LoadX509KeyPair :: "string \<Rightarrow> string \<Rightarrow> error + Certificate"
  ReadFile :: "string \<Rightarrow> error + string"
  ParsePEMCertificates :: "string \<Rightarrow> x509_Certificate list"
  NewStore :: "string \<Rightarrow> error + Storage"
  Dial :: "string \<Rightarrow> error + ClientConn"
  BootstrapSession :: "Storage \<Rightarrow> error + Domain"
  NewServer :: "Config \<Rightarrow> tls_Config option \<Rightarrow> IDriver \<Rightarrow> error + Server"
  Run :: "Server \<Rightarrow> run_outcome"
  Hostname :: "error + string"
  AddFromGatherer :: "nat \<Rightarrow> error option"

text \<open>
  \<open>(*x509.CertPool).AppendCertsFromPEM\<close> appends the certificates it can parse and
  reports whether it parsed any.
\<close>

definition AppendCertsFromPEM :: "env \<Rightarrow> CertPool \<Rightarrow> string \<Rightarrow> CertPool \<times> bool" where
  "AppendCertsFromPEM e pool pemCerts =
     (pool @ ParsePEMCertificates e pemCerts, ParsePEMCertificates e pemCerts \<noteq> [])"

subsection \<open>Processes\<close>

text \<open>
  A piece of \<open>main\<close> yields the events it causes and either a value, with which \<open>main\<close>
  goes on, or \<open>None\<close>: the process has ended (or blocks for ever) and nothing follows.
\<close>

type_synonym 'a proc = "event list \<times> 'a option"

definition bind_p :: "'a proc \<Rightarrow> ('a \<Rightarrow> 'b proc) \<Rightarrow> 'b proc" where
  "bind_p m f =
     (case m of
        (evs, None) \<Rightarrow> (evs, None)
      | (evs, Some x) \<Rightarrow> (case f x of (evs', r) \<Rightarrow> (evs @ evs', r)))"

subsection \<open>parseLease\<close>

definition parseLease :: "env \<Rightarrow> string \<Rightarrow> Duration proc" where
  "parseLease e lease =
     (let r = (case ParseDuration e lease of
                 Inl err \<Rightarrow> ParseDuration e (lease @ ''s'')
               | Inr dur \<Rightarrow> Inr dur)
      in case r of
           Inl err \<Rightarrow> ([Logf LFatal ''invalid lease duration %s'' [AStr lease]], None)
         | Inr dur \<Rightarrow>
             if sint dur < 0
             then ([Logf LFatal ''invalid lease duration %s'' [AStr lease]], None)
             else ([], Some dur))"

subsection \<open>main: registration, flags, privilege check (lines 87 to 101)\<close>

definition hasRootPrivilege :: "env \<Rightarrow> bool" where
  "hasRootPrivilege e = (Geteuid e = 0)"

definition main_flags :: "env \<Rightarrow> flags \<Rightarrow> unit proc" where
  "main_flags e fl =
     bind_p ([RegisterLocalStore ''boltdb'', RegisterStore ''tikv'', RegisterStore ''mocktikv'',
              GOMAXPROCS, FlagParse], Some ())
       (\<lambda>_. if version fl then ([PrintRawTiDBInfo, Exit 0], None)
            else if skipGrantTable fl \<and> \<not> hasRootPrivilege e
            then ([Log LError [AStr ''TiDB run with skip-grant-table need root privilege.''],
                   Exit (- 1)], None)
            else ([], Some ()))"

subsection \<open>main: the leases (lines 103 to 108)\<close>

definition main_leases :: "env \<Rightarrow> flags \<Rightarrow> unit proc" where
  "main_leases e fl =
     bind_p (parseLease e (ddlLease fl))
       (\<lambda>ddlLeaseDuration. bind_p ([SetSchemaLease ddlLeaseDuration], Some ())
          (\<lambda>_. bind_p (parseLease e (statsLease fl))
             (\<lambda>statsLeaseDuration.
                ([SetStatsLease statsLeaseDuration, SetRunWorker (runDDL fl),
                  SetCommitRetryLimit (retryLimit fl)], Some ()))))"

subsection \<open>main: the configuration (lines 110 to 126)\<close>

definition main_cfg :: "flags \<Rightarrow> Config" where
  "main_cfg fl =
     (let cfg = \<lparr> Addr = host fl @ '':'' @ port fl,
                  LogLevel = logLevel fl,
                  StatusAddr = '':'' @ statusPort fl,
                  Socket = socket fl,
                  ReportStatus = reportStatus fl,
                  Store = store fl,
                  StorePath = storePath fl,
                  SSLEnabled = sslEnabled fl,
                  SSLCAPath = sslCAPath fl,
                  SSLCertPath = sslCertPath fl,
                  SSLKeyPath = sslKeyPath fl \<rparr>
      in if length (sslCAPath fl) > 0 \<or> length (sslCertPath fl) > 0 \<or> length (sslKeyPath fl) > 0
         then cfg\<lparr>SSLEnabled := True\<rparr>
         else cfg)"

subsection \<open>main: log options and planner settings (lines 128 to 144)\<close>

definition main_logging :: "env \<Rightarrow> flags \<Rightarrow> Config \<Rightarrow> unit proc" where
  "main_logging e fl cfg =
     bind_p (if length (logFile fl) > 0
             then (case SetOutputByName e (logFile fl) of
                     Some err \<Rightarrow>
                       ([SetOutputByNameCall (logFile fl), Log LFatal [AStr (ErrorStack err)]], None)
                   | None \<Rightarrow>
                       ([SetOutputByNameCall (logFile fl), SetRotateByDay, SetHighlighting False],
                        Some ()))
             else ([], Some ()))
       (\<lambda>_. ((if joinCon fl > 0 then [SetJoinConcurrency (joinCon fl)] else []) @
             [SetAllowCartesianProduct (crossJoin fl), PrintTiDBInfo,
              SetLevelByString (LogLevel cfg)], Some ()))"

subsection \<open>main: transport security (lines 146 to 182)\<close>

text \<open>
  Lines 156 to 168: the events, \<open>certPool\<close> and \<open>clientAuthPolicy\<close>. \<open>certPool\<close> starts
  nil and becomes the new pool as soon as the CA file has been read.
\<close>

definition main_loadCA :: "env \<Rightarrow> flags \<Rightarrow> event list \<times> CertPool option \<times> ClientAuthType" where
  "main_loadCA e fl =
     (if length (sslCAPath fl) > 0
      then (case ReadFile e (sslCAPath fl) of
              Inl err \<Rightarrow>
                ([ReadFileCall (sslCAPath fl), Log LWarn [AStr (ErrorStack err)]],
                 None, NoClientCert)
            | Inr caCert \<Rightarrow>
                (case AppendCertsFromPEM e [] caCert of
                   (certPool, ok) \<Rightarrow>
                     ([ReadFileCall (sslCAPath fl)], Some certPool,
                      if ok then RequireAndVerifyClientCert else NoClientCert)))
      else ([], None, NoClientCert))"

text \<open>Lines 146 to 176: the events, the configuration as it is left, and \<open>tlsConfig\<close>.\<close>

definition main_tls :: "env \<Rightarrow> flags \<Rightarrow> Config \<Rightarrow> event list \<times> Config \<times> tls_Config option" where
  "main_tls e fl cfg =
     (if SSLEnabled cfg
      then (case LoadX509KeyPair e (sslCertPath fl) (sslKeyPath fl) of
              Inl err \<Rightarrow>
                ([LoadX509KeyPairCall (sslCertPath fl) (sslKeyPath fl),
                  Log LWarn [AStr (ErrorStack err)]],
                 cfg\<lparr>SSLEnabled := False\<rparr>, None)
            | Inr tlsCert \<Rightarrow>
                (case main_loadCA e fl of
                   (evs, certPool, clientAuthPolicy) \<Rightarrow>
                     (LoadX509KeyPairCall (sslCertPath fl) (sslKeyPath fl) # evs, cfg,
                      Some \<lparr> Certificates = [tlsCert], ClientCAs = certPool,
                             ClientAuth = clientAuthPolicy, MinVersion = 0 \<rparr>)))
      else ([], cfg, None))"

text \<open>Lines 178 to 182.\<close>

definition main_secure_log :: "Config \<Rightarrow> event" where
  "main_secure_log cfg =
     (if SSLEnabled cfg then Log LInfo [AStr ''Secure connection is enabled'']
      else Log LWarn [AStr ''Secure connection is NOT ENABLED''])"

subsection \<open>createStore, createBinlogClient, bootstrap (lines 184 to 199)\<close>

definition createStore :: "env \<Rightarrow> flags \<Rightarrow> Storage proc" where
  "createStore e fl =
     (let fullPath = store fl @ ''://'' @ storePath fl
      in case NewStore e fullPath of
           Inl err \<Rightarrow> ([NewStoreCall fullPath, Log LFatal [AStr (ErrorStack err)]], None)
         | Inr st \<Rightarrow> ([NewStoreCall fullPath], Some st))"

definition createBinlogClient :: "env \<Rightarrow> flags \<Rightarrow> unit proc" where
  "createBinlogClient e fl =
     (case Dial e (binlogSocket fl) of
        Inl err \<Rightarrow> ([DialCall (binlogSocket fl), Log LFatal [AStr (ErrorStack err)]], None)
      | Inr clientCon \<Rightarrow>
          ([DialCall (binlogSocket fl), SetPumpClient clientCon,
            Logf LInfo ''created binlog client at %s'' [AStr (binlogSocket fl)]], Some ()))"

definition main_bootstrap :: "env \<Rightarrow> flags \<Rightarrow> (Storage \<times> Domain) proc" where
  "main_bootstrap e fl =
     bind_p (createStore e fl)
       (\<lambda>st. bind_p ((if enablePS fl then [EnablePerfSchema] else []) @
                     [SetPrivilegesEnable (enablePrivilege fl),
                      SetSkipWithGrant (skipGrantTable fl)], Some ())
          (\<lambda>_. bind_p (if binlogSocket fl \<noteq> [] then createBinlogClient e fl else ([], Some ()))
             (\<lambda>_. case BootstrapSession e st of
                     Inl err \<Rightarrow>
                       ([BootstrapSessionCall st, Log LFatal [AStr (ErrorStack err)]], None)
                   | Inr domain \<Rightarrow> ([BootstrapSessionCall st], Some (st, domain)))))"

subsection \<open>main: the server (lines 201 to 207)\<close>

definition main_server :: "env \<Rightarrow> Config \<Rightarrow> tls_Config option \<Rightarrow> Storage \<Rightarrow> Server proc" where
  "main_server e cfg tlsConfig st =
     (let driver = TiDBDriver st
      in case NewServer e cfg tlsConfig driver of
           Inl err \<Rightarrow>
             ([NewServerCall cfg tlsConfig driver, Log LFatal [AStr (ErrorStack err)]], None)
         | Inr svr \<Rightarrow> ([NewServerCall cfg tlsConfig driver], Some svr))"

subsection \<open>pushMetric, prometheusPushClient, instanceName\<close>

definition pushMetric :: "string \<Rightarrow> Duration \<Rightarrow> event list" where
  "pushMetric addr interval =
     (if interval = zeroDuration \<or> length addr = 0
      then [Log LInfo [AStr ''disable Prometheus push client'']]
      else [Logf LInfo ''start Prometheus push client with server addr %s and interval %s''
              [AStr addr, ADur interval],
            Go (PrometheusPushClient addr interval)])"

definition instanceName :: "env \<Rightarrow> flags \<Rightarrow> string" where
  "instanceName e fl =
     (case Hostname e of
        Inl err \<Rightarrow> ''unknown''
      | Inr hostname \<Rightarrow> hostname @ ''_'' @ port fl)"

text \<open>
  The loop of \<open>prometheusPushClient\<close> never ends. \<open>prometheusPushClient e fl addr interval k n\<close>
  is the events of \<open>n\<close> rounds of it, starting with round \<open>k\<close>.
\<close>

fun prometheusPushClient :: "env \<Rightarrow> flags \<Rightarrow> string \<Rightarrow> Duration \<Rightarrow> nat \<Rightarrow> nat \<Rightarrow> event list" where
  "prometheusPushClient e fl addr interval k 0 = []"
| "prometheusPushClient e fl addr interval k (Suc n) =
     AddFromGathererCall ''tidb'' (instanceName e fl) addr #
     (case AddFromGatherer e k of
        Some err \<Rightarrow>
          [Logf LError ''could not push metrics to Prometheus Pushgateway: %v'' [AErr (Some err)]]
      | None \<Rightarrow> []) @
     Sleep interval # prometheusPushClient e fl addr interval (Suc k) n"

subsection \<open>main: signals, background tasks, run and teardown (lines 209 to 231)\<close>

definition main_serve :: "env \<Rightarrow> flags \<Rightarrow> Server \<Rightarrow> Domain \<Rightarrow> event list" where
  "main_serve e fl svr domain =
     [SignalNotify [SIGHUP, SIGINT, SIGTERM, SIGQUIT],
      Go (SignalHandler svr),
      MustRegister ''time_jump_back_total'',
      Go StartMonitor] @
     pushMetric (metricsAddr fl) (word_of_int (metricsInterval fl) * Second) @
     RunCall svr #
     (case Run e svr of
        Blocks \<Rightarrow> []
      | Returns err \<Rightarrow> [Log LError [AErr err], DomainClose domain, Exit 0])"

subsection \<open>main\<close>

text \<open>Lines 87 to 144: everything before the TLS certificates are tried.\<close>

definition main_init :: "env \<Rightarrow> flags \<Rightarrow> unit proc" where
  "main_init e fl =
     bind_p (main_flags e fl)
       (\<lambda>_. bind_p (main_leases e fl)
       (\<lambda>_. main_logging e fl (main_cfg fl)))"

text \<open>Lines 146 to 182: \<open>cfg\<close> and \<open>tlsConfig\<close> as the rest of \<open>main\<close> sees them.\<close>

definition main_secure :: "env \<Rightarrow> flags \<Rightarrow> (Config \<times> tls_Config option) proc" where
  "main_secure e fl =
     (case main_tls e fl (main_cfg fl) of
        (evs, cfg, tlsConfig) \<Rightarrow> (evs @ [main_secure_log cfg], Some (cfg, tlsConfig)))"

definition main :: "env \<Rightarrow> flags \<Rightarrow> event list" where
  "main e fl =
     fst (bind_p (main_init e fl)
       (\<lambda>_. bind_p (main_secure e fl)
       (\<lambda>(cfg, tlsConfig). bind_p (main_bootstrap e fl)
       (\<lambda>(st, domain). bind_p (main_server e cfg tlsConfig st)
       (\<lambda>svr. (main_serve e fl svr domain, None :: unit option))))))"

subsection \<open>The goroutine of lines 216 to 220\<close>

text \<open>What the goroutine does once \<open><-sc\<close> has given it a signal.\<close>

definition signalHandler :: "Server \<Rightarrow> Signal \<Rightarrow> event list" where
  "signalHandler svr sig = [Logf LInfo ''Got signal [%d] to exit.'' [ASig sig], CloseCall svr]"

text \<open>
  The channel \<open>sc\<close> has room for one signal. \<open>signal.Notify\<close> sends a signal of its list
  to the channel without blocking: a signal that finds the channel full is dropped, and
  a signal outside the list never reaches the channel.
\<close>

definition deliver :: "Signal list \<Rightarrow> Signal \<Rightarrow> Signal list \<Rightarrow> Signal list" where
  "deliver sigs s ch = (if s \<in> set sigs \<and> length ch < 1 then ch @ [s] else ch)"

record coordinator =
  sc :: "Signal list"
  received :: bool
  emitted :: "event list"

datatype occurrence = Arrives Signal | HandlerRuns

definition coord_init :: coordinator where
  "coord_init = \<lparr> sc = [], received = False, emitted = [] \<rparr>"

text \<open>
  One step of the system of channel and goroutine: a signal arrives, or the scheduler
  runs the goroutine, which is blocked in \<open><-sc\<close> while the channel is empty and has
  returned once it has gone through its body.
\<close>

fun coord_step :: "Signal list \<Rightarrow> Server \<Rightarrow> coordinator \<Rightarrow> occurrence \<Rightarrow> coordinator" where
  "coord_step sigs svr st (Arrives s) = st\<lparr>sc := deliver sigs s (sc st)\<rparr>"
| "coord_step sigs svr st HandlerRuns =
     (if received st then st
      else (case sc st of
              [] \<Rightarrow> st
            | sig # rest \<Rightarrow>
                st\<lparr>sc := rest, received := True, emitted := emitted st @ signalHandler svr sig\<rparr>))"

definition coord_run :: "Signal list \<Rightarrow> Server \<Rightarrow> occurrence list \<Rightarrow> coordinator" where
  "coord_run sigs svr occs = foldl (coord_step sigs svr) coord_init occs"

subsection \<open>What the goroutines of a run do\<close>

fun is_push :: "event \<Rightarrow> bool" where
  "is_push (AddFromGathererCall job inst addr) = True"
| "is_push ev = False"

fun is_close :: "event \<Rightarrow> bool" where
  "is_close (CloseCall svr) = True"
| "is_close ev = False"

text \<open>The goroutines that a list of events starts, in order.\<close>

fun spawned :: "event list \<Rightarrow> goroutine list" where
  "spawned [] = []"
| "spawned (Go g # evs) = g # spawned evs"
| "spawned (ev # evs) = spawned evs"

text \<open>
  The events of a goroutine: the signal handler with the signal it receives, if any;
  the push client in its first \<open>n\<close> rounds. The clock monitor runs inside its own
  package and calls back only to increment the counter, which is not an event here.
\<close>

fun goroutine_events :: "env \<Rightarrow> flags \<Rightarrow> Signal option \<Rightarrow> nat \<Rightarrow> goroutine \<Rightarrow> event list" where
  "goroutine_events e fl sig n (SignalHandler svr) =
     (case sig of None \<Rightarrow> [] | Some s \<Rightarrow> signalHandler svr s)"
| "goroutine_events e fl sig n StartMonitor = []"
| "goroutine_events e fl sig n (PrometheusPushClient addr interval) =
     prometheusPushClient e fl addr interval 0 n"

text \<open>The push calls among some events and the events of the goroutines they start.\<close>

definition push_calls :: "env \<Rightarrow> flags \<Rightarrow> Signal option \<Rightarrow> nat \<Rightarrow> event list \<Rightarrow> event list" where
  "push_calls e fl sig n evs =
     filter is_push (evs @ concat (map (goroutine_events e fl sig n) (spawned evs)))"

text \<open>
  The first signal of the list \<open>sigs\<close> to arrive, with what happens after it.
\<close>

fun first_signal :: "Signal list \<Rightarrow> occurrence list \<Rightarrow> (Signal \<times> occurrence list) option" where
  "first_signal sigs [] = None"
| "first_signal sigs (Arrives s # occs) =
     (if s \<in> set sigs then Some (s, occs) else first_signal sigs occs)"
| "first_signal sigs (HandlerRuns # occs) = first_signal sigs occs"

subsection \<open>Sample inputs\<close>

text \<open>The default values of the flags (lines 50 to 75).\<close>

definition default_flags :: flags where
  "default_flags =
     \<lparr> version = False, store = ''goleveldb'', storePath = ''/tmp/tidb'', logLevel = ''info'',
       host = ''0.0.0.0'', port = ''4000'', sslEnabled = False, sslCAPath = [],
       sslCertPath = [], sslKeyPath = [], statusPort = ''10080'', ddlLease = ''10s'',
       statsLease = ''3s'', socket = [], enablePS = False, enablePrivilege = True,
       reportStatus = True, logFile = [], joinCon = 5, crossJoin = True, metricsAddr = [],
       metricsInterval = 15, binlogSocket = [], runDDL = True, retryLimit = 10,
       skipGrantTable = False \<rparr>"

definition tls_flags :: flags where
  "tls_flags = default_flags\<lparr>sslCertPath := ''server.pem'', sslKeyPath := ''server.key''\<rparr>"

definition cert_missing_flags :: flags where
  "cert_missing_flags = default_flags\<lparr>sslCertPath := ''missing.pem''\<rparr>"

text \<open>
  A machine on which \<open>server.pem\<close>, \<open>server.key\<close> and \<open>ca.pem\<close> exist, \<open>empty.pem\<close> is an
  empty file, every store opens, and the server stops with an error once it is closed.
\<close>

definition sample_env :: env where
  "sample_env =
     \<lparr> Geteuid = 1000,
       ParseDuration =
         (\<lambda>s. case map_of [(''10s'', 10 * Second), (''3s'', 3 * Second), (''-1s'', - Second)] s of
                 Some d \<Rightarrow> Inr d
               | None \<Rightarrow> Inl (GoError (''time: invalid duration '' @ s) [])),
       SetOutputByName = (\<lambda>f. None),
       LoadX509KeyPair =
         (\<lambda>c k. if c = ''server.pem'' \<and> k = ''server.key'' then Inr (X509KeyPair c)
                else Inl (GoError ''no such file or directory'' ''open: no such file'')),
       ReadFile =
         (\<lambda>f. if f = ''ca.pem'' then Inr ''-----BEGIN CERTIFICATE-----''
              else if f = ''empty.pem'' then Inr []
              else Inl (GoError ''no such file or directory'' ''open: no such file'')),
       ParsePEMCertificates = (\<lambda>b. if b = [] then [] else [PEMCertificate b]),
       NewStore = (\<lambda>p. Inr (StorageHandle p)),
       Dial = (\<lambda>a. Inr (GrpcConn a)),
       BootstrapSession = (\<lambda>st. Inr (DomainHandle st)),
       NewServer = (\<lambda>c t d. Inr (ServerHandle 0)),
       Run = (\<lambda>svr. Returns (Some (GoError ''use of closed network connection'' []))),
       Hostname = Inr ''db1'',
       AddFromGatherer =
         (\<lambda>k. if k = 1 then Some (GoError ''connection refused'' []) else None) \<rparr>"

section \<open>Properties\<close>

subsection \<open>Sequencing\<close>

lemma fst_bind_p:
  "fst (bind_p m f) = fst m @ (case snd m of None \<Rightarrow> [] | Some x \<Rightarrow> fst (f x))"
  by (cases m) (auto simp: bind_p_def split: option.splits prod.splits)

lemma snd_bind_p:
  "snd (bind_p m f) = (case snd m of None \<Rightarrow> None | Some x \<Rightarrow> snd (f x))"
  by (cases m) (auto simp: bind_p_def split: option.splits prod.splits)

text \<open>The events of \<open>main\<close>, stage by stage: a stage that ends the process ends the list.\<close>

lemma main_shape:
  "main e fl =
     fst (main_init e fl) @
     (case snd (main_init e fl) of None \<Rightarrow> []
      | Some u \<Rightarrow> fst (main_secure e fl) @
          (case snd (main_secure e fl) of None \<Rightarrow> []
           | Some (cfg, t) \<Rightarrow> fst (main_bootstrap e fl) @
               (case snd (main_bootstrap e fl) of None \<Rightarrow> []
                | Some (st, domain) \<Rightarrow> fst (main_server e cfg t st) @
                    (case snd (main_server e cfg t st) of None \<Rightarrow> []
                     | Some svr \<Rightarrow> main_serve e fl svr domain))))"
  by (simp add: main_def fst_bind_p snd_bind_p split: option.splits prod.splits)

subsection \<open>The events of each stage\<close>

lemma parseLease_events:
  "set (fst (parseLease e l)) \<subseteq> {Logf LFatal ''invalid lease duration %s'' [AStr l]}"
  by (auto simp: parseLease_def Let_def split: sum.splits)

lemma init_plain:
  "RunCall s \<notin> set (fst (main_init e fl))"
  "DomainClose dm \<notin> set (fst (main_init e fl))"
  "Log LInfo m \<notin> set (fst (main_init e fl))"
  "NewServerCall c t d \<notin> set (fst (main_init e fl))"
  using parseLease_events [of e "ddlLease fl"] parseLease_events [of e "statsLease fl"]
  by (auto simp: main_init_def main_flags_def main_leases_def main_logging_def
        fst_bind_p snd_bind_p
      split: option.splits if_splits)


lemma tls_cases:
  "main_tls e fl cfg =
     (if \<not> SSLEnabled cfg then ([], cfg, None)
      else case LoadX509KeyPair e (sslCertPath fl) (sslKeyPath fl) of
             Inl err \<Rightarrow> ([LoadX509KeyPairCall (sslCertPath fl) (sslKeyPath fl),
                          Log LWarn [AStr (ErrorStack err)]], cfg\<lparr>SSLEnabled := False\<rparr>, None)
           | Inr tlsCert \<Rightarrow>
               (LoadX509KeyPairCall (sslCertPath fl) (sslKeyPath fl) # fst (main_loadCA e fl), cfg,
                Some \<lparr> Certificates = [tlsCert], ClientCAs = fst (snd (main_loadCA e fl)),
                       ClientAuth = snd (snd (main_loadCA e fl)), MinVersion = 0 \<rparr>))"
  by (simp add: main_tls_def split: sum.splits prod.splits)

lemma secure_result:
  "snd (main_secure e fl) = Some (cfg, t) \<Longrightarrow> (t \<noteq> None) = SSLEnabled cfg"
  by (auto simp: main_secure_def tls_cases split: prod.splits sum.splits if_splits)

lemma secure_plain:
  "RunCall s \<notin> set (fst (main_secure e fl))"
  "DomainClose dm \<notin> set (fst (main_secure e fl))"
  "Exit c \<notin> set (fst (main_secure e fl))"
  "NewServerCall cf tc d \<notin> set (fst (main_secure e fl))"
  by (auto simp: main_secure_def main_tls_def main_loadCA_def main_secure_log_def
      split: prod.splits sum.splits if_splits)

lemma secure_info:
  "snd (main_secure e fl) = Some (cfg, t) \<Longrightarrow>
   (Log LInfo [AStr ''Secure connection is enabled''] \<in> set (fst (main_secure e fl))) =
   SSLEnabled cfg"
  by (auto simp: main_secure_def main_tls_def main_loadCA_def main_secure_log_def
      split: prod.splits sum.splits if_splits)

lemma bootstrap_plain:
  "RunCall s \<notin> set (fst (main_bootstrap e fl))"
  "DomainClose dm \<notin> set (fst (main_bootstrap e fl))"
  "Exit c \<notin> set (fst (main_bootstrap e fl))"
  "NewServerCall cf tc d \<notin> set (fst (main_bootstrap e fl))"
  "Log LInfo m \<notin> set (fst (main_bootstrap e fl))"
  by (auto simp: main_bootstrap_def createStore_def createBinlogClient_def
        fst_bind_p snd_bind_p Let_def
      split: option.splits sum.splits if_splits)


lemma server_plain:
  "RunCall s \<notin> set (fst (main_server e cfg t st))"
  "DomainClose dm \<notin> set (fst (main_server e cfg t st))"
  "Exit c \<notin> set (fst (main_server e cfg t st))"
  "Log LInfo m \<notin> set (fst (main_server e cfg t st))"
  by (auto simp: main_server_def Let_def split: sum.splits)

lemma server_NewServerCall:
  "NewServerCall c' t' d \<in> set (fst (main_server e cfg t st)) \<Longrightarrow> c' = cfg \<and> t' = t"
  by (auto simp: main_server_def Let_def split: sum.splits)

lemma serve_plain:
  "NewServerCall cf tc d \<notin> set (main_serve e fl svr dm)"
  "Log LInfo [AStr ''Secure connection is enabled''] \<notin> set (main_serve e fl svr dm)"
  by (auto simp: main_serve_def pushMetric_def split: run_outcome.splits)



text \<open>The server is constructed with what the transport security stage left.\<close>

lemma main_NewServerCall:
  assumes "NewServerCall c t d \<in> set (main e fl)"
  shows "snd (main_secure e fl) = Some (c, t)"
  using assms init_plain(4) [of c t d e fl] secure_plain(4) [of c t d e fl]
    bootstrap_plain(4) [of c t d e fl]
  by (auto simp: main_shape serve_plain split: option.splits prod.splits
      dest: server_NewServerCall)


subsection \<open>The push client and the signal handler\<close>

lemma push_client_pushes:
  "length (filter is_push (prometheusPushClient e fl addr interval k n)) = n"
  by (induction n arbitrary: k) (auto split: option.splits)

text \<open>Once the goroutine has its signal, nothing that happens changes what it has done.\<close>

lemma run_received:
  "received st \<Longrightarrow> emitted (foldl (coord_step sigs svr) st occs) = emitted st"
proof (induction occs arbitrary: st)
  case Nil
  then show ?case by simp
next
  case (Cons occ occs)
  then show ?case by (cases occ) simp_all
qed

text \<open>While a signal waits in the channel, further signals are dropped.\<close>

lemma run_pending:
  "\<not> received st \<Longrightarrow> sc st = [s] \<Longrightarrow>
   emitted (foldl (coord_step sigs svr) st occs) =
     (if HandlerRuns \<in> set occs then emitted st @ signalHandler svr s else emitted st)"
proof (induction occs arbitrary: st)
  case Nil
  then show ?case by simp
next
  case (Cons occ occs)
  show ?case
  proof (cases occ)
    case (Arrives x)
    then show ?thesis using Cons by (simp add: deliver_def)
  next
    case HandlerRuns
    then show ?thesis using Cons.prems by (simp add: run_received)
  qed
qed

lemma run_idle:
  "\<not> received st \<Longrightarrow> sc st = [] \<Longrightarrow>
   emitted (foldl (coord_step sigs svr) st occs) =
     (case first_signal sigs occs of
        None \<Rightarrow> emitted st
      | Some (s, rest) \<Rightarrow>
          if HandlerRuns \<in> set rest then emitted st @ signalHandler svr s else emitted st)"
proof (induction occs arbitrary: st)
  case Nil
  then show ?case by simp
next
  case (Cons occ occs)
  show ?case
  proof (cases occ)
    case (Arrives x)
    show ?thesis
    proof (cases "x \<in> set sigs")
      case True
      then show ?thesis using Arrives Cons.prems
        by (simp add: deliver_def run_pending)
    next
      case False
      then show ?thesis using Arrives Cons
        by (simp add: deliver_def split: option.splits prod.splits)
    qed
  next
    case HandlerRuns
    then show ?thesis using Cons by simp
  qed
qed

lemma coord_emitted:
  "emitted (coord_run sigs svr occs) =
     (case first_signal sigs occs of
        None \<Rightarrow> []
      | Some (s, rest) \<Rightarrow> if HandlerRuns \<in> set rest then signalHandler svr s else [])"
  using run_idle [of coord_init sigs svr occs]
  by (simp add: coord_run_def coord_init_def split: option.splits prod.splits)

text \<open>Occurrences that bring no subscribed signal do not change which signal is first.\<close>

lemma first_signal_append:
  "first_signal sigs pre = None \<Longrightarrow> first_signal sigs (pre @ occs) = first_signal sigs occs"
  by (induction sigs pre rule: first_signal.induct) (simp_all split: if_splits)

subsection \<open>The metrics interval of line 227\<close>

text \<open>
  \<open>time.Duration(*metricsInterval) * time.Second\<close> is a product of 64-bit integers: it is
  zero for the flag value 0, and for no other value below \<open>2 ^ 55\<close> in absolute value
  (\<open>36028797018963968\<close> seconds); at \<open>2 ^ 55\<close> the product wraps around to zero.
\<close>

lemma metrics_interval_dvd:
  assumes "(word_of_int n :: 64 word) * 1000000000 = 0"
  shows "(18446744073709551616 :: int) dvd n * 1000000000"
proof -
  have "(word_of_int (n * 1000000000) :: 64 word) = 0"
    using assms by simp
  then have "(2 :: int) ^ LENGTH(64) dvd n * 1000000000"
    by (rule iffD1 [OF word_of_int_eq_0_iff])
  then show ?thesis by simp
qed

lemma metrics_interval_half:
  assumes "(18446744073709551616 :: int) dvd n * 1000000000"
  shows "(36028797018963968 :: int) dvd n * 1953125"
proof -
  obtain k where "n * 1000000000 = 18446744073709551616 * k"
    using assms by (auto simp: dvd_def)
  then have "n * 1953125 = 36028797018963968 * k" by simp
  then show ?thesis by (simp only: dvd_triv_left)
qed

lemma odd_factor_cancel: "(2 :: int) ^ m dvd n * k \<Longrightarrow> odd k \<Longrightarrow> 2 ^ m dvd n"
  by (metis coprime_dvd_mult_left_iff coprime_power_left_iff coprime_left_2_iff_odd)

lemma metrics_interval_nonzero:
  assumes "n \<noteq> 0" and "\<bar>n\<bar> < 36028797018963968"
  shows "(word_of_int n :: Duration) * Second \<noteq> zeroDuration"
proof
  assume "word_of_int n * Second = zeroDuration"
  then have "(word_of_int n :: 64 word) * 1000000000 = 0"
    by (simp add: Second_def zeroDuration_def)
  then have "(18446744073709551616 :: int) dvd n * 1000000000"
    by (rule metrics_interval_dvd)
  then have "(36028797018963968 :: int) dvd n * 1953125"
    by (rule metrics_interval_half)
  then have "(2 :: int) ^ 55 dvd n * 1953125" by simp
  then have "(2 :: int) ^ 55 dvd n" by (rule odd_factor_cancel) simp
  then have "(36028797018963968 :: int) dvd n" by simp
  then show False using assms by auto
qed

lemma metrics_interval_wraps:
  "(word_of_int 36028797018963968 :: Duration) * Second = zeroDuration"
  by (simp add: Second_def zeroDuration_def)

lemma spawned_append: "spawned (xs @ ys) = spawned xs @ spawned ys"
  by (induction xs rule: spawned.induct) simp_all

lemma serve_spawned:
  "spawned (main_serve e fl svr dm) =
     SignalHandler svr # StartMonitor #
     spawned (pushMetric (metricsAddr fl) (word_of_int (metricsInterval fl) * Second))"
  by (simp add: main_serve_def spawned_append split: run_outcome.splits)

text \<open>
  So \<open>main\<close> starts the push client for every address that is not empty and every flag
  value other than zero in that range, the negative ones included.
\<close>

lemma serve_starts_push_client:
  assumes "metricsAddr fl \<noteq> []"
    and "metricsInterval fl \<noteq> 0" and "\<bar>metricsInterval fl\<bar> < 36028797018963968"
  shows "spawned (main_serve e fl svr dm) =
           [SignalHandler svr, StartMonitor,
            PrometheusPushClient (metricsAddr fl) (word_of_int (metricsInterval fl) * Second)]"
  using assms(1) metrics_interval_nonzero [OF assms(2,3)]
  by (simp add: serve_spawned pushMetric_def)

subsection \<open>The sample runs\<close>

lemma main_default:
  "main sample_env default_flags =
     [RegisterLocalStore ''boltdb'', RegisterStore ''tikv'', RegisterStore ''mocktikv'',
      GOMAXPROCS, FlagParse, SetSchemaLease 10000000000, SetStatsLease 3000000000,
      SetRunWorker True, SetCommitRetryLimit 10, SetJoinConcurrency 5,
      SetAllowCartesianProduct True, PrintTiDBInfo, SetLevelByString ''info'',
      Log LWarn [AStr ''Secure connection is NOT ENABLED''],
      NewStoreCall ''goleveldb:///tmp/tidb'', SetPrivilegesEnable True, SetSkipWithGrant False,
      BootstrapSessionCall (StorageHandle ''goleveldb:///tmp/tidb''),
      NewServerCall
        \<lparr> Addr = ''0.0.0.0:4000'', LogLevel = ''info'', StatusAddr = '':10080'', Socket = [],
          ReportStatus = True, Store = ''goleveldb'', StorePath = ''/tmp/tidb'',
          SSLEnabled = False, SSLCAPath = [], SSLCertPath = [], SSLKeyPath = [] \<rparr>
        None (TiDBDriver (StorageHandle ''goleveldb:///tmp/tidb'')),
      SignalNotify [SIGHUP, SIGINT, SIGTERM, SIGQUIT], Go (SignalHandler (ServerHandle 0)),
      MustRegister ''time_jump_back_total'', Go StartMonitor,
      Log LInfo [AStr ''disable Prometheus push client''],
      RunCall (ServerHandle 0),
      Log LError [AErr (Some (GoError ''use of closed network connection'' []))],
      DomainClose (DomainHandle (StorageHandle ''goleveldb:///tmp/tidb'')),
      Exit 0]"
  by code_simp

lemma main_tls_flags:
  "main sample_env (tls_flags\<lparr>sslCAPath := ''ca.pem''\<rparr>) =
     [RegisterLocalStore ''boltdb'', RegisterStore ''tikv'', RegisterStore ''mocktikv'',
      GOMAXPROCS, FlagParse, SetSchemaLease 10000000000, SetStatsLease 3000000000,
      SetRunWorker True, SetCommitRetryLimit 10, SetJoinConcurrency 5,
      SetAllowCartesianProduct True, PrintTiDBInfo, SetLevelByString ''info'',
      LoadX509KeyPairCall ''server.pem'' ''server.key'', ReadFileCall ''ca.pem'',
      Log LInfo [AStr ''Secure connection is enabled''],
      NewStoreCall ''goleveldb:///tmp/tidb'', SetPrivilegesEnable True, SetSkipWithGrant False,
      BootstrapSessionCall (StorageHandle ''goleveldb:///tmp/tidb''),
      NewServerCall
        \<lparr> Addr = ''0.0.0.0:4000'', LogLevel = ''info'', StatusAddr = '':10080'', Socket = [],
          ReportStatus = True, Store = ''goleveldb'', StorePath = ''/tmp/tidb'',
          SSLEnabled = True, SSLCAPath = ''ca.pem'', SSLCertPath = ''server.pem'',
          SSLKeyPath = ''server.key'' \<rparr>
        (Some \<lparr> Certificates = [X509KeyPair ''server.pem''],
                 ClientCAs = Some [PEMCertificate ''-----BEGIN CERTIFICATE-----''],
                 ClientAuth = RequireAndVerifyClientCert, MinVersion = 0 \<rparr>)
        (TiDBDriver (StorageHandle ''goleveldb:///tmp/tidb'')),
      SignalNotify [SIGHUP, SIGINT, SIGTERM, SIGQUIT], Go (SignalHandler (ServerHandle 0)),
      MustRegister ''time_jump_back_total'', Go StartMonitor,
      Log LInfo [AStr ''disable Prometheus push client''],
      RunCall (ServerHandle 0),
      Log LError [AErr (Some (GoError ''use of closed network connection'' []))],
      DomainClose (DomainHandle (StorageHandle ''goleveldb:///tmp/tidb'')),
      Exit 0]"
  by code_simp

lemma main_cert_missing:
  "main sample_env cert_missing_flags =
     [RegisterLocalStore ''boltdb'', RegisterStore ''tikv'', RegisterStore ''mocktikv'',
      GOMAXPROCS, FlagParse, SetSchemaLease 10000000000, SetStatsLease 3000000000,
      SetRunWorker True, SetCommitRetryLimit 10, SetJoinConcurrency 5,
      SetAllowCartesianProduct True, PrintTiDBInfo, SetLevelByString ''info'',
      LoadX509KeyPairCall ''missing.pem'' [], Log LWarn [AStr ''open: no such file''],
      Log LWarn [AStr ''Secure connection is NOT ENABLED''],
      NewStoreCall ''goleveldb:///tmp/tidb'', SetPrivilegesEnable True, SetSkipWithGrant False,
      BootstrapSessionCall (StorageHandle ''goleveldb:///tmp/tidb''),
      NewServerCall
        \<lparr> Addr = ''0.0.0.0:4000'', LogLevel = ''info'', StatusAddr = '':10080'', Socket = [],
          ReportStatus = True, Store = ''goleveldb'', StorePath = ''/tmp/tidb'',
          SSLEnabled = False, SSLCAPath = [], SSLCertPath = ''missing.pem'',
          SSLKeyPath = [] \<rparr>
        None (TiDBDriver (StorageHandle ''goleveldb:///tmp/tidb'')),
      SignalNotify [SIGHUP, SIGINT, SIGTERM, SIGQUIT], Go (SignalHandler (ServerHandle 0)),
      MustRegister ''time_jump_back_total'', Go StartMonitor,
      Log LInfo [AStr ''disable Prometheus push client''],
      RunCall (ServerHandle 0),
      Log LError [AErr (Some (GoError ''use of closed network connection'' []))],
      DomainClose (DomainHandle (StorageHandle ''goleveldb:///tmp/tidb'')),
      Exit 0]"
  by code_simp


section \<open>The claims\<close>

text \<open>
  C1 (as amended). When TLS is enabled and the certificate and key load, \<open>main\<close> builds a
  policy with that certificate. Its trust pool is absent when no CA path is given or the
  CA file cannot be read, and is otherwise the pool made of the certificates parsed from
  the CA file, which is present and empty when the file holds no valid PEM certificate.
  Client authentication is require-and-verify exactly when the pool is present and not
  empty, and no client certificate is required otherwise.
\<close>

theorem client_auth_policy:
  assumes "SSLEnabled cfg"
    and "LoadX509KeyPair e (sslCertPath fl) (sslKeyPath fl) = Inr tlsCert"
  shows "\<exists>evs p. main_tls e fl cfg = (evs, cfg, Some p) \<and>
           Certificates p = [tlsCert] \<and>
           ClientCAs p =
             (if sslCAPath fl = [] then None
              else case ReadFile e (sslCAPath fl) of
                     Inl err \<Rightarrow> None
                   | Inr caCert \<Rightarrow> Some (ParsePEMCertificates e caCert)) \<and>
           ClientAuth p =
             (if ClientCAs p = None \<or> ClientCAs p = Some [] then NoClientCert
              else RequireAndVerifyClientCert)"
  using assms
  by (cases "ReadFile e (sslCAPath fl)")
     (auto simp: tls_cases main_loadCA_def AppendCertsFromPEM_def)

theorem client_auth_policy_witness:
  "SSLEnabled (main_cfg (tls_flags\<lparr>sslCAPath := ''ca.pem''\<rparr>)) \<and>
   LoadX509KeyPair sample_env (sslCertPath (tls_flags\<lparr>sslCAPath := ''ca.pem''\<rparr>))
     (sslKeyPath (tls_flags\<lparr>sslCAPath := ''ca.pem''\<rparr>)) = Inr (X509KeyPair ''server.pem'') \<and>
   (\<exists>evs p. main_tls sample_env (tls_flags\<lparr>sslCAPath := ''ca.pem''\<rparr>)
               (main_cfg (tls_flags\<lparr>sslCAPath := ''ca.pem''\<rparr>)) =
               (evs, main_cfg (tls_flags\<lparr>sslCAPath := ''ca.pem''\<rparr>), Some p) \<and>
            Certificates p = [X509KeyPair ''server.pem''] \<and>
            ClientCAs p = Some [PEMCertificate ''-----BEGIN CERTIFICATE-----''] \<and>
            ClientAuth p = RequireAndVerifyClientCert)"
proof -
  have h1: "SSLEnabled (main_cfg (tls_flags\<lparr>sslCAPath := ''ca.pem''\<rparr>))"
    by (simp add: main_cfg_def tls_flags_def default_flags_def)
  have h2: "LoadX509KeyPair sample_env (sslCertPath (tls_flags\<lparr>sslCAPath := ''ca.pem''\<rparr>))
     (sslKeyPath (tls_flags\<lparr>sslCAPath := ''ca.pem''\<rparr>)) = Inr (X509KeyPair ''server.pem'')"
    by (simp add: sample_env_def tls_flags_def default_flags_def)
  have h3: "ReadFile sample_env ''ca.pem'' = Inr ''-----BEGIN CERTIFICATE-----''"
    by (simp add: sample_env_def)
  have h4: "ParsePEMCertificates sample_env ''-----BEGIN CERTIFICATE-----'' =
            [PEMCertificate ''-----BEGIN CERTIFICATE-----'']"
    by (simp add: sample_env_def)
  show ?thesis
    using h1 h2 client_auth_policy [OF h1 h2] by (auto simp: h3 h4)
qed

text \<open>
  Where C1 as stated fails: the CA file \<open>empty.pem\<close> is read and holds no certificate.
  No client certificate is required, but the policy carries a trust pool: the new, empty
  pool, not a nil one.
\<close>

theorem empty_pool_counterexample:
  "ReadFile sample_env ''empty.pem'' = Inr [] \<and>
   ParsePEMCertificates sample_env [] = [] \<and>
   snd (snd (main_tls sample_env (tls_flags\<lparr>sslCAPath := ''empty.pem''\<rparr>)
              (main_cfg (tls_flags\<lparr>sslCAPath := ''empty.pem''\<rparr>)))) =
     Some \<lparr> Certificates = [X509KeyPair ''server.pem''], ClientCAs = Some [],
            ClientAuth = NoClientCert, MinVersion = 0 \<rparr> \<and>
   ClientCAs (the (snd (snd (main_tls sample_env (tls_flags\<lparr>sslCAPath := ''empty.pem''\<rparr>)
              (main_cfg (tls_flags\<lparr>sslCAPath := ''empty.pem''\<rparr>)))))) \<noteq> None"
  by (simp add: main_tls_def main_loadCA_def AppendCertsFromPEM_def main_cfg_def
      tls_flags_def default_flags_def sample_env_def)

text \<open>
  C2. A lease that parses to a duration that is not negative is returned; a lease that
  does not parse is parsed again with \<open>s\<close> appended, and that result is returned if it is
  not negative; when the second parse fails too, or the duration parsed is negative,
  \<open>parseLease\<close> ends the process with a fatal message that names the lease.
\<close>

theorem parseLease_fallback:
  "(ParseDuration e lease = Inr d \<and> 0 \<le> sint d \<longrightarrow> parseLease e lease = ([], Some d)) \<and>
   (ParseDuration e lease = Inl err \<and> ParseDuration e (lease @ ''s'') = Inr d \<and> 0 \<le> sint d
      \<longrightarrow> parseLease e lease = ([], Some d)) \<and>
   (ParseDuration e lease = Inl err \<and> ParseDuration e (lease @ ''s'') = Inl err'
      \<longrightarrow> parseLease e lease = ([Logf LFatal ''invalid lease duration %s'' [AStr lease]], None)) \<and>
   (ParseDuration e lease = Inr d \<and> sint d < 0
      \<longrightarrow> parseLease e lease = ([Logf LFatal ''invalid lease duration %s'' [AStr lease]], None)) \<and>
   (ParseDuration e lease = Inl err \<and> ParseDuration e (lease @ ''s'') = Inr d \<and> sint d < 0
      \<longrightarrow> parseLease e lease = ([Logf LFatal ''invalid lease duration %s'' [AStr lease]], None))"
  by (auto simp: parseLease_def)

theorem parseLease_fallback_witness:
  "parseLease sample_env ''10s'' = ([], Some (10 * Second)) \<and>
   parseLease sample_env ''3'' = ([], Some (3 * Second)) \<and>
   parseLease sample_env ''abc'' = ([Logf LFatal ''invalid lease duration %s'' [AStr ''abc'']], None) \<and>
   parseLease sample_env ''-1s'' = ([Logf LFatal ''invalid lease duration %s'' [AStr ''-1s'']], None) \<and>
   parseLease sample_env ''-1'' = ([Logf LFatal ''invalid lease duration %s'' [AStr ''-1'']], None)"
proof -
  have p1: "ParseDuration sample_env ''10s'' = Inr (10 * Second)"
    and p2: "ParseDuration sample_env ''3'' = Inl (GoError ''time: invalid duration 3'' [])"
    and p3: "ParseDuration sample_env (''3'' @ ''s'') = Inr (3 * Second)"
    and p4: "ParseDuration sample_env ''abc'' = Inl (GoError ''time: invalid duration abc'' [])"
    and p5: "ParseDuration sample_env (''abc'' @ ''s'') =
             Inl (GoError ''time: invalid duration abcs'' [])"
    and p6: "ParseDuration sample_env ''-1s'' = Inr (- Second)"
    and p7: "ParseDuration sample_env ''-1'' = Inl (GoError ''time: invalid duration -1'' [])"
    and p8: "ParseDuration sample_env (''-1'' @ ''s'') = Inr (- Second)"
    by (simp_all add: sample_env_def)
  have s1: "0 \<le> sint (10 * Second)" and s2: "0 \<le> sint (3 * Second)"
    and s3: "sint (- Second) < 0"
    by (simp_all add: Second_def)
  show ?thesis
    using parseLease_fallback [of sample_env "''10s''" "10 * Second"]
      parseLease_fallback [of sample_env "''3''" "3 * Second" "GoError ''time: invalid duration 3'' []"]
      parseLease_fallback [of sample_env "''abc''" _ "GoError ''time: invalid duration abc'' []"
        "GoError ''time: invalid duration abcs'' []"]
      parseLease_fallback [of sample_env "''-1s''" "- Second"]
      parseLease_fallback [of sample_env "''-1''" "- Second" "GoError ''time: invalid duration -1'' []"]
      p1 p2 p3 p4 p5 p6 p7 p8 s1 s2 s3
    by simp
qed

text \<open>
  C3. Whatever the explicit TLS flag says, a CA path, certificate path or key path that
  is not empty makes the configuration resolved from the flags TLS-enabled.
\<close>

theorem tls_implication:
  "sslCAPath fl \<noteq> [] \<or> sslCertPath fl \<noteq> [] \<or> sslKeyPath fl \<noteq> [] \<Longrightarrow>
   SSLEnabled (main_cfg (fl\<lparr>sslEnabled := b\<rparr>))"
  by (auto simp: main_cfg_def)

theorem tls_implication_witness:
  "sslCertPath cert_missing_flags = ''missing.pem'' \<and>
   sslEnabled (cert_missing_flags\<lparr>sslEnabled := False\<rparr>) = False \<and>
   SSLEnabled (main_cfg (cert_missing_flags\<lparr>sslEnabled := False\<rparr>))"
proof -
  have p: "sslCertPath cert_missing_flags = ''missing.pem''"
    by (simp add: cert_missing_flags_def default_flags_def)
  have h: "sslCAPath cert_missing_flags \<noteq> [] \<or> sslCertPath cert_missing_flags \<noteq> [] \<or>
           sslKeyPath cert_missing_flags \<noteq> []"
    by (simp add: p)
  show ?thesis
    using p tls_implication [OF h, of False] by simp
qed



text \<open>
  C5. \<open>main\<close> subscribes the channel to hangup, interrupt, terminate and quit and starts
  the handler goroutine. Whatever signals arrive and whenever the goroutine is run, the
  goroutine does nothing until it has run after the arrival of a subscribed signal; from
  then on what it has done is the log line for the first subscribed signal that arrived
  and one call of \<open>Close\<close> on the server, and the number of \<open>Close\<close> calls is exactly
  one, however many signals arrive before, between or after.
\<close>

theorem close_exactly_once:
  "take 2 (main_serve e fl svr dm) =
     [SignalNotify [SIGHUP, SIGINT, SIGTERM, SIGQUIT], Go (SignalHandler svr)] \<and>
   length (filter is_close (emitted (coord_run [SIGHUP, SIGINT, SIGTERM, SIGQUIT] svr occs))) \<le> 1 \<and>
   emitted (coord_run [SIGHUP, SIGINT, SIGTERM, SIGQUIT] svr occs) =
     (case first_signal [SIGHUP, SIGINT, SIGTERM, SIGQUIT] occs of
        None \<Rightarrow> []
      | Some (s, rest) \<Rightarrow> if HandlerRuns \<in> set rest then signalHandler svr s else []) \<and>
   filter is_close (emitted (coord_run [SIGHUP, SIGINT, SIGTERM, SIGQUIT] svr occs)) =
     (case first_signal [SIGHUP, SIGINT, SIGTERM, SIGQUIT] occs of
        None \<Rightarrow> []
      | Some (s, rest) \<Rightarrow> if HandlerRuns \<in> set rest then [CloseCall svr] else []) \<and>
   (first_signal [SIGHUP, SIGINT, SIGTERM, SIGQUIT] occs = Some (sg, after) \<and>
    HandlerRuns \<in> set after \<longrightarrow>
      emitted (coord_run [SIGHUP, SIGINT, SIGTERM, SIGQUIT] svr occs) =
        [Logf LInfo ''Got signal [%d] to exit.'' [ASig sg], CloseCall svr] \<and>
      length (filter is_close
        (emitted (coord_run [SIGHUP, SIGINT, SIGTERM, SIGQUIT] svr occs))) = 1) \<and>
   (x \<in> set [SIGHUP, SIGINT, SIGTERM, SIGQUIT] \<and>
    first_signal [SIGHUP, SIGINT, SIGTERM, SIGQUIT] pre = None \<longrightarrow>
      emitted (coord_run [SIGHUP, SIGINT, SIGTERM, SIGQUIT] svr
        (pre @ Arrives x # mid @ HandlerRuns # post)) =
        [Logf LInfo ''Got signal [%d] to exit.'' [ASig x], CloseCall svr] \<and>
      length (filter is_close
        (emitted (coord_run [SIGHUP, SIGINT, SIGTERM, SIGQUIT] svr
          (pre @ Arrives x # mid @ HandlerRuns # post)))) = 1)"
proof -
  let ?sigs = "[SIGHUP, SIGINT, SIGTERM, SIGQUIT]"
  have a: "take 2 (main_serve e fl svr dm) = [SignalNotify ?sigs, Go (SignalHandler svr)]"
    by (simp add: main_serve_def)
  have b: "length (filter is_close (emitted (coord_run ?sigs svr occs))) \<le> 1"
    by (simp add: coord_emitted signalHandler_def split: option.splits)
  have c: "emitted (coord_run ?sigs svr occs) =
     (case first_signal ?sigs occs of
        None \<Rightarrow> []
      | Some (s, rest) \<Rightarrow> if HandlerRuns \<in> set rest then signalHandler svr s else [])"
    by (rule coord_emitted)
  have d: "filter is_close (emitted (coord_run ?sigs svr occs)) =
     (case first_signal ?sigs occs of
        None \<Rightarrow> []
      | Some (s, rest) \<Rightarrow> if HandlerRuns \<in> set rest then [CloseCall svr] else [])"
    by (simp add: coord_emitted signalHandler_def split: option.splits)
  have f: "emitted (coord_run ?sigs svr occs) =
        [Logf LInfo ''Got signal [%d] to exit.'' [ASig sg], CloseCall svr] \<and>
      length (filter is_close (emitted (coord_run ?sigs svr occs))) = 1"
    if "first_signal ?sigs occs = Some (sg, after)" and "HandlerRuns \<in> set after"
    using that by (simp add: coord_emitted signalHandler_def)
  have g: "emitted (coord_run ?sigs svr (pre @ Arrives x # mid @ HandlerRuns # post)) =
        [Logf LInfo ''Got signal [%d] to exit.'' [ASig x], CloseCall svr] \<and>
      length (filter is_close
        (emitted (coord_run ?sigs svr (pre @ Arrives x # mid @ HandlerRuns # post)))) = 1"
    if "x \<in> set ?sigs" and "first_signal ?sigs pre = None"
  proof -
    have "first_signal ?sigs (pre @ Arrives x # mid @ HandlerRuns # post) =
          Some (x, mid @ HandlerRuns # post)"
      using that by (simp only: first_signal_append first_signal.simps if_True)
    then show ?thesis
      by (simp add: coord_emitted signalHandler_def)
  qed
  show ?thesis
    using a b c d f g by blast
qed

theorem close_exactly_once_witness:
  "first_signal [SIGHUP, SIGINT, SIGTERM, SIGQUIT]
      [Arrives SIGUSR1, HandlerRuns, Arrives SIGTERM, Arrives SIGINT, HandlerRuns,
       Arrives SIGHUP, HandlerRuns, Arrives SIGQUIT] =
     Some (SIGTERM, [Arrives SIGINT, HandlerRuns, Arrives SIGHUP, HandlerRuns, Arrives SIGQUIT]) \<and>
   first_signal [SIGHUP, SIGINT, SIGTERM, SIGQUIT] [Arrives SIGUSR1, HandlerRuns] = None \<and>
   emitted (coord_run [SIGHUP, SIGINT, SIGTERM, SIGQUIT] (ServerHandle 0)
      [Arrives SIGUSR1, HandlerRuns, Arrives SIGTERM, Arrives SIGINT, HandlerRuns,
       Arrives SIGHUP, HandlerRuns, Arrives SIGQUIT]) =
     [Logf LInfo ''Got signal [%d] to exit.'' [ASig SIGTERM], CloseCall (ServerHandle 0)] \<and>
   filter is_close (emitted (coord_run [SIGHUP, SIGINT, SIGTERM, SIGQUIT] (ServerHandle 0)
      [Arrives SIGUSR1, HandlerRuns, Arrives SIGTERM, Arrives SIGINT, HandlerRuns,
       Arrives SIGHUP, HandlerRuns, Arrives SIGQUIT])) = [CloseCall (ServerHandle 0)] \<and>
   length (filter is_close (emitted (coord_run [SIGHUP, SIGINT, SIGTERM, SIGQUIT] (ServerHandle 0)
      [Arrives SIGUSR1, HandlerRuns, Arrives SIGTERM, Arrives SIGINT, HandlerRuns,
       Arrives SIGHUP, HandlerRuns, Arrives SIGQUIT]))) = 1 \<and>
   length (filter is_close (emitted (coord_run [SIGHUP, SIGINT, SIGTERM, SIGQUIT] (ServerHandle 0)
      ([Arrives SIGUSR1, HandlerRuns] @ Arrives SIGTERM #
       [Arrives SIGINT] @ HandlerRuns # [Arrives SIGHUP, HandlerRuns, Arrives SIGQUIT])))) = 1"
proof -
  let ?sigs = "[SIGHUP, SIGINT, SIGTERM, SIGQUIT]"
  let ?occs = "[Arrives SIGUSR1, HandlerRuns, Arrives SIGTERM, Arrives SIGINT, HandlerRuns,
       Arrives SIGHUP, HandlerRuns, Arrives SIGQUIT]"
  let ?after = "[Arrives SIGINT, HandlerRuns, Arrives SIGHUP, HandlerRuns, Arrives SIGQUIT]"
  have h1: "first_signal ?sigs ?occs = Some (SIGTERM, ?after) \<and> HandlerRuns \<in> set ?after"
    by simp
  have h2: "SIGTERM \<in> set ?sigs \<and> first_signal ?sigs [Arrives SIGUSR1, HandlerRuns] = None"
    by simp
  note th = close_exactly_once [of sample_env default_flags "ServerHandle 0"
      "DomainHandle (StorageHandle [])" ?occs SIGTERM ?after SIGTERM
      "[Arrives SIGUSR1, HandlerRuns]" "[Arrives SIGINT]"
      "[Arrives SIGHUP, HandlerRuns, Arrives SIGQUIT]"]
  have e1: "emitted (coord_run ?sigs (ServerHandle 0) ?occs) =
     [Logf LInfo ''Got signal [%d] to exit.'' [ASig SIGTERM], CloseCall (ServerHandle 0)]"
    and e2: "length (filter is_close (emitted (coord_run ?sigs (ServerHandle 0) ?occs))) = 1"
    using th h1 by blast+
  have e3: "filter is_close (emitted (coord_run ?sigs (ServerHandle 0) ?occs)) =
            [CloseCall (ServerHandle 0)]"
    using e1 by simp
  have e4: "length (filter is_close (emitted (coord_run ?sigs (ServerHandle 0)
      ([Arrives SIGUSR1, HandlerRuns] @ Arrives SIGTERM #
       [Arrives SIGINT] @ HandlerRuns # [Arrives SIGHUP, HandlerRuns, Arrives SIGQUIT])))) = 1"
    using th h2 by blast
  show ?thesis
    using h1 h2 e1 e2 e3 e4 by blast
qed



text \<open>
  C7. With an empty address or a zero interval, \<open>pushMetric\<close> only logs that the push
  client is disabled: it starts no goroutine, and neither it nor a goroutine it started
  ever makes a push call.
\<close>

theorem pusher_disabled:
  "interval = zeroDuration \<or> addr = [] \<Longrightarrow>
   pushMetric addr interval = [Log LInfo [AStr ''disable Prometheus push client'']] \<and>
   spawned (pushMetric addr interval) = [] \<and>
   push_calls e fl sig n (pushMetric addr interval) = []"
  by (auto simp: pushMetric_def push_calls_def)

theorem pusher_disabled_witness:
  "pushMetric ''pushgateway:9091'' zeroDuration =
     [Log LInfo [AStr ''disable Prometheus push client'']] \<and>
   spawned (pushMetric ''pushgateway:9091'' zeroDuration) = [] \<and>
   push_calls sample_env default_flags (Some SIGTERM) 5
     (pushMetric ''pushgateway:9091'' zeroDuration) = [] \<and>
   pushMetric [] (15 * Second) = [Log LInfo [AStr ''disable Prometheus push client'']] \<and>
   spawned (pushMetric [] (15 * Second)) = [] \<and>
   push_calls sample_env default_flags (Some SIGTERM) 5 (pushMetric [] (15 * Second)) = []"
proof -
  have h1: "zeroDuration = zeroDuration \<or> ''pushgateway:9091'' = []"
    by simp
  have h2: "15 * Second = zeroDuration \<or> ([] :: string) = []"
    by simp
  show ?thesis
    using pusher_disabled [OF h1, of sample_env default_flags "Some SIGTERM" 5]
      pusher_disabled [OF h2, of sample_env default_flags "Some SIGTERM" 5]
    by blast
qed

text \<open>
  C8. With an address that is not empty and an interval other than zero, negative ones
  included, \<open>pushMetric\<close> starts the push client with that address and interval, and the
  push client makes one push call in each round of its loop.
\<close>

theorem pusher_enabled:
  "addr \<noteq> [] \<and> interval \<noteq> zeroDuration \<Longrightarrow>
   spawned (pushMetric addr interval) = [PrometheusPushClient addr interval] \<and>
   length (push_calls e fl sig n (pushMetric addr interval)) = n"
  by (auto simp: pushMetric_def push_calls_def push_client_pushes)

theorem pusher_enabled_witness:
  "''pushgateway:9091'' \<noteq> [] \<and> - Second \<noteq> zeroDuration \<and> sint (- Second) < 0 \<and>
   spawned (pushMetric ''pushgateway:9091'' (- Second)) =
     [PrometheusPushClient ''pushgateway:9091'' (- Second)] \<and>
   length (push_calls sample_env default_flags None 3
     (pushMetric ''pushgateway:9091'' (- Second))) = 3"
proof -
  have h: "''pushgateway:9091'' \<noteq> [] \<and> - Second \<noteq> zeroDuration"
    by (simp add: Second_def zeroDuration_def)
  have n: "sint (- Second) < 0"
    by (simp add: Second_def)
  show ?thesis
    using h n pusher_enabled [OF h, of sample_env default_flags None 3] by simp
qed

text \<open>
  C9. Whenever the server is constructed, the TLS policy it is given is present exactly
  when the configuration it is given is TLS-enabled, and the run has logged that secure
  connection is enabled exactly when that policy is present.
\<close>

theorem tls_policy_iff_enabled:
  assumes "NewServerCall c t d \<in> set (main e fl)"
  shows "(t \<noteq> None) = SSLEnabled c \<and>
         (Log LInfo [AStr ''Secure connection is enabled''] \<in> set (main e fl)) = (t \<noteq> None)"
proof -
  have sec: "snd (main_secure e fl) = Some (c, t)"
    using assms by (rule main_NewServerCall)
  have a: "(t \<noteq> None) = SSLEnabled c"
    using sec by (rule secure_result)
  have "(Log LInfo [AStr ''Secure connection is enabled''] \<in> set (main e fl)) =
        (Log LInfo [AStr ''Secure connection is enabled''] \<in> set (fst (main_secure e fl)))"
    using assms sec
    by (auto simp: main_shape init_plain bootstrap_plain server_plain serve_plain
        split: option.splits prod.splits)
  then show ?thesis using a secure_info [OF sec] by simp
qed

theorem tls_policy_iff_enabled_witness:
  "NewServerCall
     \<lparr> Addr = ''0.0.0.0:4000'', LogLevel = ''info'', StatusAddr = '':10080'', Socket = [],
       ReportStatus = True, Store = ''goleveldb'', StorePath = ''/tmp/tidb'',
       SSLEnabled = True, SSLCAPath = ''ca.pem'', SSLCertPath = ''server.pem'',
       SSLKeyPath = ''server.key'' \<rparr>
     (Some \<lparr> Certificates = [X509KeyPair ''server.pem''],
              ClientCAs = Some [PEMCertificate ''-----BEGIN CERTIFICATE-----''],
              ClientAuth = RequireAndVerifyClientCert, MinVersion = 0 \<rparr>)
     (TiDBDriver (StorageHandle ''goleveldb:///tmp/tidb''))
     \<in> set (main sample_env (tls_flags\<lparr>sslCAPath := ''ca.pem''\<rparr>)) \<and>
   Log LInfo [AStr ''Secure connection is enabled'']
     \<in> set (main sample_env (tls_flags\<lparr>sslCAPath := ''ca.pem''\<rparr>)) \<and>
   NewServerCall
     \<lparr> Addr = ''0.0.0.0:4000'', LogLevel = ''info'', StatusAddr = '':10080'', Socket = [],
       ReportStatus = True, Store = ''goleveldb'', StorePath = ''/tmp/tidb'',
       SSLEnabled = False, SSLCAPath = [], SSLCertPath = [], SSLKeyPath = [] \<rparr>
     None (TiDBDriver (StorageHandle ''goleveldb:///tmp/tidb''))
     \<in> set (main sample_env default_flags) \<and>
   Log LInfo [AStr ''Secure connection is enabled''] \<notin> set (main sample_env default_flags)"
proof -
  have h1: "NewServerCall
     \<lparr> Addr = ''0.0.0.0:4000'', LogLevel = ''info'', StatusAddr = '':10080'', Socket = [],
       ReportStatus = True, Store = ''goleveldb'', StorePath = ''/tmp/tidb'',
       SSLEnabled = True, SSLCAPath = ''ca.pem'', SSLCertPath = ''server.pem'',
       SSLKeyPath = ''server.key'' \<rparr>
     (Some \<lparr> Certificates = [X509KeyPair ''server.pem''],
              ClientCAs = Some [PEMCertificate ''-----BEGIN CERTIFICATE-----''],
              ClientAuth = RequireAndVerifyClientCert, MinVersion = 0 \<rparr>)
     (TiDBDriver (StorageHandle ''goleveldb:///tmp/tidb''))
     \<in> set (main sample_env (tls_flags\<lparr>sslCAPath := ''ca.pem''\<rparr>))"
    by (simp add: main_tls_flags)
  have h2: "NewServerCall
     \<lparr> Addr = ''0.0.0.0:4000'', LogLevel = ''info'', StatusAddr = '':10080'', Socket = [],
       ReportStatus = True, Store = ''goleveldb'', StorePath = ''/tmp/tidb'',
       SSLEnabled = False, SSLCAPath = [], SSLCertPath = [], SSLKeyPath = [] \<rparr>
     None (TiDBDriver (StorageHandle ''goleveldb:///tmp/tidb''))
     \<in> set (main sample_env default_flags)"
    by (simp add: main_default)
  show ?thesis
    using h1 h2 tls_policy_iff_enabled [OF h1] tls_policy_iff_enabled [OF h2] by simp
qed

text \<open>
  C10. The configuration resolved from the flags has every field but TLS-enabled equal
  to what the flag gives (the address is host, colon, port; the status address is colon,
  status port); the certificate step changes at most TLS-enabled; and the configuration
  a server is constructed with differs from the flag values in TLS-enabled at most.
\<close>

theorem config_frame:
  "(\<exists>b. main_cfg fl =
      \<lparr> Addr = host fl @ '':'' @ port fl, LogLevel = logLevel fl,
        StatusAddr = '':'' @ statusPort fl, Socket = socket fl,
        ReportStatus = reportStatus fl, Store = store fl, StorePath = storePath fl,
        SSLEnabled = b, SSLCAPath = sslCAPath fl, SSLCertPath = sslCertPath fl,
        SSLKeyPath = sslKeyPath fl \<rparr>) \<and>
   (\<exists>b. fst (snd (main_tls e fl cfg)) = cfg\<lparr>SSLEnabled := b\<rparr>) \<and>
   (\<forall>c t d. NewServerCall c t d \<in> set (main e fl) \<longrightarrow>
      (\<exists>b. c = \<lparr> Addr = host fl @ '':'' @ port fl, LogLevel = logLevel fl,
        StatusAddr = '':'' @ statusPort fl, Socket = socket fl,
        ReportStatus = reportStatus fl, Store = store fl, StorePath = storePath fl,
        SSLEnabled = b, SSLCAPath = sslCAPath fl, SSLCertPath = sslCertPath fl,
        SSLKeyPath = sslKeyPath fl \<rparr>))"
proof -
  have a: "\<exists>b. main_cfg fl =
      \<lparr> Addr = host fl @ '':'' @ port fl, LogLevel = logLevel fl,
        StatusAddr = '':'' @ statusPort fl, Socket = socket fl,
        ReportStatus = reportStatus fl, Store = store fl, StorePath = storePath fl,
        SSLEnabled = b, SSLCAPath = sslCAPath fl, SSLCertPath = sslCertPath fl,
        SSLKeyPath = sslKeyPath fl \<rparr>"
    by (auto simp: main_cfg_def Let_def)
  have b: "\<exists>b. fst (snd (main_tls e fl cfg)) = cfg\<lparr>SSLEnabled := b\<rparr>" for cfg
    by (cases "LoadX509KeyPair e (sslCertPath fl) (sslKeyPath fl)")
       (auto simp: tls_cases intro: exI [of _ "SSLEnabled cfg"])
  have c: "\<exists>b. c = \<lparr> Addr = host fl @ '':'' @ port fl, LogLevel = logLevel fl,
        StatusAddr = '':'' @ statusPort fl, Socket = socket fl,
        ReportStatus = reportStatus fl, Store = store fl, StorePath = storePath fl,
        SSLEnabled = b, SSLCAPath = sslCAPath fl, SSLCertPath = sslCertPath fl,
        SSLKeyPath = sslKeyPath fl \<rparr>"
    if "NewServerCall c t d \<in> set (main e fl)" for c t d
  proof -
    have "snd (main_secure e fl) = Some (c, t)"
      using that by (rule main_NewServerCall)
    then have "c = fst (snd (main_tls e fl (main_cfg fl)))"
      by (auto simp: main_secure_def split: prod.splits)
    then show ?thesis
      using a b [of "main_cfg fl"] by auto
  qed
  show ?thesis using a b c by blast
qed

theorem config_frame_witness:
  "NewServerCall
     \<lparr> Addr = ''0.0.0.0:4000'', LogLevel = ''info'', StatusAddr = '':10080'', Socket = [],
       ReportStatus = True, Store = ''goleveldb'', StorePath = ''/tmp/tidb'',
       SSLEnabled = False, SSLCAPath = [], SSLCertPath = ''missing.pem'', SSLKeyPath = [] \<rparr>
     None (TiDBDriver (StorageHandle ''goleveldb:///tmp/tidb''))
     \<in> set (main sample_env cert_missing_flags) \<and>
   (\<exists>b. \<lparr> Addr = ''0.0.0.0:4000'', LogLevel = ''info'', StatusAddr = '':10080'', Socket = [],
          ReportStatus = True, Store = ''goleveldb'', StorePath = ''/tmp/tidb'',
          SSLEnabled = False, SSLCAPath = [], SSLCertPath = ''missing.pem'',
          SSLKeyPath = [] \<rparr> =
        \<lparr> Addr = host cert_missing_flags @ '':'' @ port cert_missing_flags,
          LogLevel = logLevel cert_missing_flags,
          StatusAddr = '':'' @ statusPort cert_missing_flags,
          Socket = socket cert_missing_flags,
          ReportStatus = reportStatus cert_missing_flags,
          Store = store cert_missing_flags, StorePath = storePath cert_missing_flags,
          SSLEnabled = b, SSLCAPath = sslCAPath cert_missing_flags,
          SSLCertPath = sslCertPath cert_missing_flags,
          SSLKeyPath = sslKeyPath cert_missing_flags \<rparr>)"
proof -
  have h: "NewServerCall
     \<lparr> Addr = ''0.0.0.0:4000'', LogLevel = ''info'', StatusAddr = '':10080'', Socket = [],
       ReportStatus = True, Store = ''goleveldb'', StorePath = ''/tmp/tidb'',
       SSLEnabled = False, SSLCAPath = [], SSLCertPath = ''missing.pem'', SSLKeyPath = [] \<rparr>
     None (TiDBDriver (StorageHandle ''goleveldb:///tmp/tidb''))
     \<in> set (main sample_env cert_missing_flags)"
    by (simp add: main_cert_missing)
  show ?thesis
    using h config_frame [of cert_missing_flags sample_env "main_cfg cert_missing_flags"]
    by blast
qed

end
